theory Spec2Isabelle
  imports Complex_Main
begin

section \<open>Wine quality classes and class-conditioned value groups\<close>

text \<open>
  A shallow embedding of the classification part of \<^verbatim>\<open>wine_quality_assignment.py\<close>
  (section 6 of the script): the function \<^verbatim>\<open>map_quality_to_class\<close>, the assignment of the
  derived column \<^verbatim>\<open>quality_class\<close>, the filtered frame \<^verbatim>\<open>df_classed\<close> and the function
  \<^verbatim>\<open>values_by_class\<close>, and of the statements before it as far as they can stop the script
  on the loaded data. Plotting, printing and the parsing of the CSV file are not modelled.
\<close>

subsection \<open>Data model\<close>

text \<open>
  A wine is one row of the loaded table: the integer column \<^verbatim>\<open>quality\<close> and the
  physicochemical columns, read by name. The values of those columns are only ever copied,
  never computed with, so their type is a parameter \<open>'f\<close> (float64 in the program).
\<close>

record 'f wine =
  quality :: int
  attr :: "string \<Rightarrow> 'f"

text \<open>A row after the column \<^verbatim>\<open>quality_class\<close> has been set; Python's \<^verbatim>\<open>None\<close> is \<open>None\<close>.\<close>

record 'f classed_wine = "'f wine" +
  quality_class :: "string option"

text \<open>
  A pandas Series is a sequence of values, each with its index label; a DataFrame is a
  sequence of labelled rows together with the names of its columns. The column
  \<^verbatim>\<open>quality\<close> (and, once set, \<^verbatim>\<open>quality_class\<close>) is part of the row type, the other
  column names are listed in \<open>attr_columns\<close>.
\<close>

type_synonym 'v series = "(nat \<times> 'v) list"

record 'r dataframe =
  attr_columns :: "string list"
  rows :: "(nat \<times> 'r) list"

text \<open>What one cell of a frame can hold: a float, an integer, or an object (a string or None).\<close>

datatype 'f cell = FloatCell 'f | IntCell int | ObjCell "string option"

datatype error = KeyError string | ValueError

text \<open>
  \<^verbatim>\<open>df = pd.read_csv(CSV_PATH, sep=';')\<close>: the frame as loaded from the records of the
  file, in file order, labelled by pandas' default index \<open>0, 1, 2, \<dots>\<close>.
\<close>

definition read_csv :: "string list \<Rightarrow> 'f wine list \<Rightarrow> 'f wine dataframe" where
  "read_csv cols recs = \<lparr>attr_columns = cols, rows = enumerate 0 recs\<rparr>"

subsection \<open>The classifier\<close>

definition map_quality_to_class :: "int \<Rightarrow> string option" where
  "map_quality_to_class q =
     (if q < 4 then Some ''Bad''
      else if q > 4 \<and> q \<le> 7 then Some ''Good''
      else if q > 7 then Some ''Very Good''
      else None)"

subsection \<open>The derived column and the filtered frame\<close>

text \<open>\<^verbatim>\<open>df['quality']\<close> and \<^verbatim>\<open>Series.apply\<close>.\<close>

definition quality_series :: "('f, 'z) wine_scheme dataframe \<Rightarrow> int series" where
  "quality_series d = map (\<lambda>(i, r). (i, quality r)) (rows d)"

definition series_apply :: "('a \<Rightarrow> 'b) \<Rightarrow> 'a series \<Rightarrow> 'b series" where
  "series_apply f s = map (\<lambda>(i, v). (i, f v)) s"

text \<open>
  \<^verbatim>\<open>df['quality_class'] = s\<close>: every row takes the value that \<open>s\<close> has at the row's label
  (a label missing from \<open>s\<close> gives a missing value); a column of that name already present
  is overwritten. The other columns, the labels and the order of the rows stay.
\<close>

definition setitem_quality_class ::
  "('f, 'z) wine_scheme dataframe \<Rightarrow> string option series \<Rightarrow> 'f classed_wine dataframe" where
  "setitem_quality_class d s =
     \<lparr>attr_columns = attr_columns d,
      rows = map (\<lambda>(i, r). (i, \<lparr>quality = quality r, attr = attr r,
                                 quality_class = (case map_of s i of Some v \<Rightarrow> v | None \<Rightarrow> None)\<rparr>))
                 (rows d)\<rparr>"

text \<open>\<^verbatim>\<open>df['quality_class'] = df['quality'].apply(map_quality_to_class)\<close>\<close>

definition add_quality_class :: "('f, 'z) wine_scheme dataframe \<Rightarrow> 'f classed_wine dataframe" where
  "add_quality_class d =
     setitem_quality_class d (series_apply map_quality_to_class (quality_series d))"

text \<open>\<^verbatim>\<open>df.dropna(subset=['quality_class']).copy()\<close>: a new frame, without the rows whose class is None.\<close>

definition dropna_quality_class :: "'f classed_wine dataframe \<Rightarrow> 'f classed_wine dataframe" where
  "dropna_quality_class d =
     \<lparr>attr_columns = attr_columns d,
      rows = filter (\<lambda>(i, r). quality_class r \<noteq> None) (rows d)\<rparr>"

text \<open>The two module-level variables that the grouping reads, after both assignments.\<close>

record 'f globals =
  df :: "'f classed_wine dataframe"
  df_classed :: "'f classed_wine dataframe"

definition classify_frame :: "('f, 'z) wine_scheme dataframe \<Rightarrow> 'f globals" where
  "classify_frame d0 =
     (let d1 = add_quality_class d0
      in \<lparr>df = d1, df_classed = dropna_quality_class d1\<rparr>)"

subsection \<open>Grouping the values of a column by class\<close>

text \<open>The cell of a row in the column named \<open>c\<close>, for a column that the frame has.\<close>

definition cell_of :: "string \<Rightarrow> 'f classed_wine \<Rightarrow> 'f cell" where
  "cell_of c r =
     (if c = ''quality_class'' then ObjCell (quality_class r)
      else if c = ''quality'' then IntCell (quality r)
      else FloatCell (attr r c))"

definition has_column :: "'f classed_wine dataframe \<Rightarrow> string \<Rightarrow> bool" where
  "has_column d c \<longleftrightarrow> c = ''quality_class'' \<or> c = ''quality'' \<or> c \<in> set (attr_columns d)"

text \<open>\<^verbatim>\<open>df_classed['quality_class'] == label\<close>: a boolean Series.\<close>

definition quality_class_series :: "'f classed_wine dataframe \<Rightarrow> string option series" where
  "quality_class_series d = map (\<lambda>(i, r). (i, quality_class r)) (rows d)"

definition series_eq :: "string option series \<Rightarrow> string \<Rightarrow> bool series" where
  "series_eq s label = map (\<lambda>(i, v). (i, v = Some label)) s"

text \<open>
  \<^verbatim>\<open>d.loc[mask, column]\<close>: the column's cells of the rows at whose label the mask is True,
  in the order of the frame; a KeyError when the frame has no column of that name.
\<close>

definition loc :: "'f classed_wine dataframe \<Rightarrow> bool series \<Rightarrow> string \<Rightarrow> error + 'f cell series" where
  "loc d m column =
     (if has_column d column
      then Inr (map (\<lambda>(i, r). (i, cell_of column r))
                    (filter (\<lambda>(i, r). map_of m i = Some True) (rows d)))
      else Inl (KeyError column))"

text \<open>\<^verbatim>\<open>.values\<close>: the values of a Series without their labels.\<close>

definition series_values :: "'v series \<Rightarrow> 'v list" where
  "series_values s = map snd s"

text \<open>\<^verbatim>\<open>df_classed.loc[df_classed['quality_class'] == label, column]\<close>\<close>

definition class_series :: "'f globals \<Rightarrow> string \<Rightarrow> string \<Rightarrow> error + 'f cell series" where
  "class_series g label column =
     loc (df_classed g) (series_eq (quality_class_series (df_classed g)) label) column"

definition values_by_class :: "'f globals \<Rightarrow> string \<Rightarrow> error + 'f cell list list" where
  "values_by_class g column =
     (case class_series g ''Bad'' column of Inl e \<Rightarrow> Inl e | Inr bad \<Rightarrow>
       (case class_series g ''Good'' column of Inl e \<Rightarrow> Inl e | Inr good \<Rightarrow>
         (case class_series g ''Very Good'' column of Inl e \<Rightarrow> Inl e | Inr very_good \<Rightarrow>
            Inr [series_values bad, series_values good, series_values very_good])))"

subsection \<open>The script from loading to the grouping\<close>

text \<open>
  Between loading the frame and setting \<^verbatim>\<open>quality_class\<close> the script prints statistics
  and draws four figures. Those statements do not change \<open>df\<close>, but three of them can stop
  the script on the loaded data: the two scatter plots read the columns
  \<^verbatim>\<open>df['residual sugar']\<close>, \<^verbatim>\<open>df['pH']\<close>, \<^verbatim>\<open>df['fixed acidity']\<close> and
  \<^verbatim>\<open>df['citric acid']\<close>, and the histogram computes
  \<^verbatim>\<open>int(df['quality'].min()), int(df['quality'].max())\<close>, where the minimum of an empty
  column is NaN and \<^verbatim>\<open>int\<close> of NaN raises a ValueError. The printing and drawing
  themselves are taken to return.
\<close>

definition getitem :: "'f wine dataframe \<Rightarrow> string \<Rightarrow> error + 'f cell series" where
  "getitem d c =
     (if c = ''quality'' then Inr (map (\<lambda>(i, r). (i, IntCell (quality r))) (rows d))
      else if c \<in> set (attr_columns d) then Inr (map (\<lambda>(i, r). (i, FloatCell (attr r c))) (rows d))
      else Inl (KeyError c))"

definition quality_min_max :: "'f wine dataframe \<Rightarrow> error + int \<times> int" where
  "quality_min_max d =
     (case map (\<lambda>(i, r). quality r) (rows d) of
        [] \<Rightarrow> Inl ValueError
      | q # qs \<Rightarrow> Inr (fold min qs q, fold max qs q))"

definition script_until_grouping :: "string list \<Rightarrow> 'f wine list \<Rightarrow> error + 'f globals" where
  "script_until_grouping cols recs =
     (let d = read_csv cols recs in
      case getitem d ''residual sugar'' of Inl e \<Rightarrow> Inl e | Inr residual_sugar \<Rightarrow>
       (case getitem d ''pH'' of Inl e \<Rightarrow> Inl e | Inr pH \<Rightarrow>
         (case getitem d ''fixed acidity'' of Inl e \<Rightarrow> Inl e | Inr fixed_acidity \<Rightarrow>
           (case getitem d ''citric acid'' of Inl e \<Rightarrow> Inl e | Inr citric_acid \<Rightarrow>
             (case quality_min_max d of Inl e \<Rightarrow> Inl e | Inr min_max \<Rightarrow>
                Inr (classify_frame d))))))"

subsection \<open>Notions used in the statements\<close>

text \<open>
  The two variables as lines 209 and 212 compute them from the frame with the columns
  \<open>cols\<close> and the records \<open>recs\<close>. The script gets there only when the statements before
  line 209 return, that is, when \<open>script_until_grouping cols recs\<close> is not an error.
\<close>

abbreviation after_load :: "string list \<Rightarrow> 'f wine list \<Rightarrow> 'f globals" where
  "after_load cols recs \<equiv> classify_frame (read_csv cols recs)"

text \<open>A row together with the class of its own quality.\<close>

definition with_class :: "('f, 'z) wine_scheme \<Rightarrow> 'f classed_wine" where
  "with_class r = \<lparr>quality = quality r, attr = attr r,
                   quality_class = map_quality_to_class (quality r)\<rparr>"

text \<open>The cells of column \<open>c\<close> over the records of one class, in the order of the records.\<close>

definition bucket :: "string \<Rightarrow> string \<Rightarrow> 'f wine list \<Rightarrow> 'f cell list" where
  "bucket c label recs =
     map (\<lambda>r. cell_of c (with_class r))
       (filter (\<lambda>r. map_quality_to_class (quality r) = Some label) recs)"

text \<open>
  A small dataset with the qualities 3, 4, 5, 8, 6 and 2, which has every outcome of the
  classifier and two classes with more than one record, used to run the definitions.
\<close>

definition scenario :: "real wine list" where
  "scenario =
     [\<lparr>quality = 3, attr = (\<lambda>c. 9.4)\<rparr>, \<lparr>quality = 4, attr = (\<lambda>c. 9.8)\<rparr>,
      \<lparr>quality = 5, attr = (\<lambda>c. 10.5)\<rparr>, \<lparr>quality = 8, attr = (\<lambda>c. 12.8)\<rparr>,
      \<lparr>quality = 6, attr = (\<lambda>c. 9.9)\<rparr>, \<lparr>quality = 2, attr = (\<lambda>c. 11.2)\<rparr>]"

text \<open>Two records whose qualities lie outside the range 0 to 10 of the score.\<close>

definition extremes :: "real wine list" where
  "extremes = [\<lparr>quality = - 2, attr = (\<lambda>c. 9.4)\<rparr>, \<lparr>quality = 11, attr = (\<lambda>c. 9.8)\<rparr>]"

text \<open>Two records of quality 4, which have no class.\<close>

definition only_fours :: "real wine list" where
  "only_fours = [\<lparr>quality = 4, attr = (\<lambda>c. 9.4)\<rparr>, \<lparr>quality = 4, attr = (\<lambda>c. 9.8)\<rparr>]"

text \<open>The columns of the red wine file other than \<^verbatim>\<open>quality\<close>.\<close>

definition wine_columns :: "string list" where
  "wine_columns =
     [''fixed acidity'', ''volatile acidity'', ''citric acid'', ''residual sugar'',
      ''chlorides'', ''free sulfur dioxide'', ''total sulfur dioxide'', ''density'',
      ''pH'', ''sulphates'', ''alcohol'']"

subsection \<open>What the frames hold after loading\<close>

lemmas script_defs =
  read_csv_def classify_frame_def add_quality_class_def setitem_quality_class_def
  series_apply_def quality_series_def dropna_quality_class_def map_quality_to_class_def
  values_by_class_def class_series_def loc_def has_column_def cell_of_def
  quality_class_series_def series_eq_def series_values_def Let_def

lemma map_of_labelled:
  assumes "distinct (map fst xs)" and "(i, r) \<in> set xs"
  shows "map_of (map (\<lambda>(i, r). (i, f r)) xs) i = Some (f r)"
proof -
  have "map fst (map (\<lambda>(i, r). (i, f r)) xs) = map fst xs"
    by (simp add: case_prod_unfold o_def)
  moreover have "(i, f r) \<in> set (map (\<lambda>(i, r). (i, f r)) xs)"
    using assms(2) by force
  ultimately show ?thesis
    using assms(1) by (simp only: map_of_eq_Some_iff)
qed

lemma rows_add_quality_class:
  assumes "distinct (map fst (rows d))"
  shows "rows (add_quality_class d) = map (\<lambda>(i, r). (i, with_class r)) (rows d)"
proof -
  have s: "series_apply map_quality_to_class (quality_series d)
           = map (\<lambda>(i, r). (i, map_quality_to_class (quality r))) (rows d)"
    by (simp add: series_apply_def quality_series_def case_prod_unfold o_def)
  show ?thesis
    unfolding add_quality_class_def setitem_quality_class_def s
    using assms
    by (auto simp: with_class_def map_of_labelled [where f = "\<lambda>r. map_quality_to_class (quality r)"])
qed

lemma rows_classify_read_csv:
  "rows (df (classify_frame (read_csv cols recs)))
     = map (\<lambda>(i, r). (i, with_class r)) (enumerate 0 recs)"
  "rows (df_classed (classify_frame (read_csv cols recs)))
     = map (\<lambda>(i, r). (i, with_class r))
           (filter (\<lambda>(i, r). map_quality_to_class (quality r) \<noteq> None) (enumerate 0 recs))"
  "attr_columns (df (classify_frame (read_csv cols recs))) = cols"
  "attr_columns (df_classed (classify_frame (read_csv cols recs))) = cols"
proof -
  have d: "distinct (map fst (rows (read_csv cols recs)))"
    by (simp add: read_csv_def)
  show "rows (df (classify_frame (read_csv cols recs)))
     = map (\<lambda>(i, r). (i, with_class r)) (enumerate 0 recs)"
    using rows_add_quality_class [OF d]
    by (simp add: classify_frame_def Let_def read_csv_def)
  then show "rows (df_classed (classify_frame (read_csv cols recs)))
     = map (\<lambda>(i, r). (i, with_class r))
           (filter (\<lambda>(i, r). map_quality_to_class (quality r) \<noteq> None) (enumerate 0 recs))"
    by (simp add: classify_frame_def Let_def dropna_quality_class_def filter_map
        o_def case_prod_unfold with_class_def)
  show "attr_columns (df (classify_frame (read_csv cols recs))) = cols"
    by (simp add: classify_frame_def Let_def add_quality_class_def
        setitem_quality_class_def read_csv_def)
  show "attr_columns (df_classed (classify_frame (read_csv cols recs))) = cols"
    by (simp add: classify_frame_def Let_def add_quality_class_def
        setitem_quality_class_def read_csv_def dropna_quality_class_def)
qed

lemma class_series_read_csv:
  "class_series (classify_frame (read_csv cols recs)) label c =
     (if c = ''quality_class'' \<or> c = ''quality'' \<or> c \<in> set cols
      then Inr (map (\<lambda>(i, r). (i, cell_of c (with_class r)))
                 (filter (\<lambda>(i, r). map_quality_to_class (quality r) = Some label)
                    (enumerate 0 recs)))
      else Inl (KeyError c))"
proof -
  let ?g = "classify_frame (read_csv cols recs)"
  let ?kept = "filter (\<lambda>(i, r). map_quality_to_class (quality r) \<noteq> None) (enumerate 0 recs)"
  have r: "rows (df_classed ?g) = map (\<lambda>(i, r). (i, with_class r)) ?kept"
    by (rule rows_classify_read_csv)
  have dist: "distinct (map fst (rows (df_classed ?g)))"
    unfolding r by (simp add: case_prod_unfold o_def distinct_map_filter)
  have m: "map_of (series_eq (quality_class_series (df_classed ?g)) label) i
             = Some (quality_class w = Some label)"
    if "(i, w) \<in> set (rows (df_classed ?g))" for i w
  proof -
    have "series_eq (quality_class_series (df_classed ?g)) label
            = map (\<lambda>(i, r). (i, quality_class r = Some label)) (rows (df_classed ?g))"
      by (simp add: series_eq_def quality_class_series_def case_prod_unfold o_def)
    then show ?thesis
      using map_of_labelled [OF dist that, where f = "\<lambda>r. quality_class r = Some label"]
      by simp
  qed
  have f: "filter (\<lambda>(i, r). map_of (series_eq (quality_class_series (df_classed ?g)) label) i
                       = Some True) (rows (df_classed ?g))
           = filter (\<lambda>(i, r). quality_class r = Some label) (rows (df_classed ?g))"
    by (rule filter_cong) (auto simp: m)
  have k: "filter (\<lambda>(i, r). quality_class r = Some label) (rows (df_classed ?g))
           = map (\<lambda>(i, r). (i, with_class r))
               (filter (\<lambda>(i, r). map_quality_to_class (quality r) = Some label)
                  (enumerate 0 recs))"
  proof -
    have "(\<lambda>x::nat \<times> 'a wine. (\<exists>y. map_quality_to_class (quality (snd x)) = Some y) \<and>
             map_quality_to_class (quality (snd x)) = Some label)
          = (\<lambda>x. map_quality_to_class (quality (snd x)) = Some label)"
      by auto
    then show ?thesis
      unfolding r
      by (simp add: filter_map o_def case_prod_unfold with_class_def)
  qed
  show ?thesis
    unfolding class_series_def loc_def f k
    by (simp add: has_column_def rows_classify_read_csv(4) case_prod_unfold o_def)
qed

lemma values_filter_enumerate:
  "map (\<lambda>p. f (snd p)) (filter (\<lambda>p. P (snd p)) (enumerate n xs)) = map f (filter P xs)"
  by (induction xs arbitrary: n) simp_all

lemma series_values_bucket:
  "series_values (map (\<lambda>(i, r). (i, cell_of c (with_class r)))
                   (filter (\<lambda>(i, r). map_quality_to_class (quality r) = Some label)
                      (enumerate 0 recs)))
   = bucket c label recs"
  using values_filter_enumerate [where f = "\<lambda>r. cell_of c (with_class r)"
      and P = "\<lambda>r. map_quality_to_class (quality r) = Some label" and n = 0 and xs = recs]
  by (simp add: series_values_def bucket_def o_def case_prod_unfold)

lemma values_by_class_read_csv:
  "values_by_class (classify_frame (read_csv cols recs)) c =
     (if c = ''quality_class'' \<or> c = ''quality'' \<or> c \<in> set cols
      then Inr [bucket c ''Bad'' recs, bucket c ''Good'' recs, bucket c ''Very Good'' recs]
      else Inl (KeyError c))"
  by (simp add: values_by_class_def class_series_read_csv series_values_bucket)

lemma values_by_class_Inr:
  assumes "values_by_class g c = Inr bs"
  shows "\<exists>bad good very_good.
           class_series g ''Bad'' c = Inr bad \<and> class_series g ''Good'' c = Inr good
           \<and> class_series g ''Very Good'' c = Inr very_good
           \<and> bs = [series_values bad, series_values good, series_values very_good]"
  using assms by (auto simp: values_by_class_def split: sum.splits)

lemma class_series_labels:
  assumes "class_series (after_load cols recs) label c = Inr s"
  shows "sorted_wrt (<) (map fst s)"
    and "\<forall>(i, v) \<in> set s. i < length recs
           \<and> map_quality_to_class (quality (recs ! i)) = Some label
           \<and> v = cell_of c (with_class (recs ! i))"
proof -
  let ?sel = "filter (\<lambda>(i, r). map_quality_to_class (quality r) = Some label) (enumerate 0 recs)"
  have s: "s = map (\<lambda>(i, r). (i, cell_of c (with_class r))) ?sel"
    using assms by (simp add: class_series_read_csv split: if_splits)
  have "sorted_wrt (<) (map fst (enumerate 0 recs))"
    by simp
  then have "sorted_wrt (\<lambda>a b. fst a < fst b) (enumerate 0 recs)"
    by (simp only: sorted_wrt_map)
  then have "sorted_wrt (\<lambda>a b. fst a < fst b) ?sel"
    by (rule sorted_wrt_filter)
  then have "sorted_wrt (<) (map fst ?sel)"
    by (simp only: sorted_wrt_map)
  moreover have "map fst s = map fst ?sel"
    unfolding s by (simp add: case_prod_unfold o_def)
  ultimately show "sorted_wrt (<) (map fst s)"
    by simp
  show "\<forall>(i, v) \<in> set s. i < length recs
           \<and> map_quality_to_class (quality (recs ! i)) = Some label
           \<and> v = cell_of c (with_class (recs ! i))"
    unfolding s by (auto simp: in_set_enumerate_eq)
qed

lemma class_not_None: "map_quality_to_class q \<noteq> None \<longleftrightarrow> q \<noteq> 4"
  by (simp add: map_quality_to_class_def)

lemma class_Some_not4: "map_quality_to_class q = Some l \<Longrightarrow> q \<noteq> 4"
  by (auto simp: map_quality_to_class_def)

lemma bucket_without_4: "bucket c l (filter (\<lambda>r. quality r \<noteq> 4) recs) = bucket c l recs"
proof -
  have "(\<lambda>r::'a wine. quality r \<noteq> 4 \<and> map_quality_to_class (quality r) = Some l)
        = (\<lambda>r. map_quality_to_class (quality r) = Some l)"
    by (auto dest: class_Some_not4)
  then show ?thesis
    by (simp add: bucket_def)
qed

lemma length_bucket:
  "length (bucket c l recs) = length (filter (\<lambda>r. map_quality_to_class (quality r) = Some l) recs)"
  by (simp add: bucket_def)

lemma class_counts:
  "length (filter (\<lambda>r. map_quality_to_class (quality r) = Some ''Bad'') recs)
   + length (filter (\<lambda>r. map_quality_to_class (quality r) = Some ''Good'') recs)
   + length (filter (\<lambda>r. map_quality_to_class (quality r) = Some ''Very Good'') recs)
   = length (filter (\<lambda>r. quality r \<noteq> 4) recs)"
proof (induction recs)
  case Nil
  show ?case by simp
next
  case (Cons r recs)
  then show ?case
    by (simp add: map_quality_to_class_def)
qed

lemma class_thresholds:
  "map_quality_to_class q = Some ''Bad'' \<longleftrightarrow> q < 4"
  "map_quality_to_class q = Some ''Good'' \<longleftrightarrow> 4 < q \<and> q \<le> 7"
  "map_quality_to_class q = Some ''Very Good'' \<longleftrightarrow> 7 < q"
  by (auto simp: map_quality_to_class_def)

lemma bucket_thresholds:
  "bucket c ''Bad'' recs = map (\<lambda>r. cell_of c (with_class r)) (filter (\<lambda>r. quality r < 4) recs)"
  "bucket c ''Good'' recs
     = map (\<lambda>r. cell_of c (with_class r)) (filter (\<lambda>r. 4 < quality r \<and> quality r \<le> 7) recs)"
  "bucket c ''Very Good'' recs
     = map (\<lambda>r. cell_of c (with_class r)) (filter (\<lambda>r. 7 < quality r) recs)"
  by (simp_all only: bucket_def class_thresholds)

lemma class_in_df:
  assumes "i < length recs"
  shows "rows (df (after_load cols recs)) ! i = (i, with_class (recs ! i))"
  using assms by (simp add: rows_classify_read_csv(1) nth_enumerate_eq)

lemma extremes_values:
  "values_by_class (after_load [''alcohol''] extremes) ''alcohol''
     = Inr [[FloatCell 9.4], [], [FloatCell 9.8]]"
  by (simp add: extremes_def script_defs)

lemma script_until_grouping_Inr:
  assumes "script_until_grouping cols recs = Inr g"
  shows "g = after_load cols recs" and "recs \<noteq> []"
  using assms
  by (auto simp: script_until_grouping_def Let_def quality_min_max_def read_csv_def
      split: sum.splits list.splits)

lemmas until_grouping_defs =
  script_until_grouping_def getitem_def quality_min_max_def wine_columns_def

lemma extremes_reach_grouping:
  "script_until_grouping wine_columns extremes = Inr (after_load wine_columns extremes)"
  by (simp add: until_grouping_defs read_csv_def extremes_def)

lemma only_fours_reach_grouping:
  "script_until_grouping wine_columns only_fours = Inr (after_load wine_columns only_fours)"
  by (simp add: until_grouping_defs read_csv_def only_fours_def)

lemma extremes_wine_values:
  "values_by_class (after_load wine_columns extremes) ''alcohol''
     = Inr [[FloatCell 9.4], [], [FloatCell 9.8]]"
  by (simp add: extremes_def wine_columns_def script_defs)

lemma only_fours_values:
  "values_by_class (after_load wine_columns only_fours) ''alcohol'' = Inr [[], [], []]"
  by (simp add: only_fours_def wine_columns_def script_defs)

lemma scenario_values:
  "values_by_class (after_load [''alcohol'', ''pH''] scenario) ''alcohol''
     = Inr [[FloatCell 9.4, FloatCell 11.2], [FloatCell 10.5, FloatCell 9.9], [FloatCell 12.8]]"
  by (simp add: scenario_def script_defs)

lemma scenario_series:
  "class_series (after_load [''alcohol'', ''pH''] scenario) ''Bad'' ''alcohol''
     = Inr [(0, FloatCell 9.4), (5, FloatCell 11.2)]"
  "class_series (after_load [''alcohol'', ''pH''] scenario) ''Good'' ''alcohol''
     = Inr [(2, FloatCell 10.5), (4, FloatCell 9.9)]"
  "class_series (after_load [''alcohol'', ''pH''] scenario) ''Very Good'' ''alcohol''
     = Inr [(3, FloatCell 12.8)]"
  by (simp_all add: scenario_def script_defs)

lemma scenario_missing:
  "values_by_class (after_load [''alcohol'', ''pH''] scenario) ''sulphates'' = Inl (KeyError ''sulphates'')"
  by (simp add: scenario_def script_defs)

subsection \<open>The classifier's rule\<close>

text \<open>
  C1. For every integer \<open>q\<close> the classifier returns one of the four outcomes Bad, Good,
  Very Good and unassigned (None): Bad for every \<open>q < 4\<close>, Good for every \<open>q\<close> with
  \<open>4 < q \<le> 7\<close>, Very Good for every \<open>q > 7\<close>, and unassigned exactly for \<open>q = 4\<close>.
\<close>

theorem map_quality_to_class_rule:
  "map_quality_to_class q \<in> {Some ''Bad'', Some ''Good'', Some ''Very Good'', None}
   \<and> (q < 4 \<longrightarrow> map_quality_to_class q = Some ''Bad'')
   \<and> (4 < q \<and> q \<le> 7 \<longrightarrow> map_quality_to_class q = Some ''Good'')
   \<and> (q \<in> {5, 6, 7} \<longrightarrow> map_quality_to_class q = Some ''Good'')
   \<and> (7 < q \<longrightarrow> map_quality_to_class q = Some ''Very Good'')
   \<and> (map_quality_to_class q = None \<longleftrightarrow> q = 4)"
  by (auto simp: map_quality_to_class_def)

theorem map_quality_to_class_rule_witness:
  "(3::int) < 4 \<and> map_quality_to_class 3 = Some ''Bad''
   \<and> (4::int) < 6 \<and> (6::int) \<le> 7 \<and> (6::int) \<in> {5, 6, 7} \<and> map_quality_to_class 6 = Some ''Good''
   \<and> (7::int) < 9 \<and> map_quality_to_class 9 = Some ''Very Good''
   \<and> map_quality_to_class 4 = None"
  using map_quality_to_class_rule [of 3] map_quality_to_class_rule [of 6]
    map_quality_to_class_rule [of 9] map_quality_to_class_rule [of 4]
  by simp

subsection \<open>Unclassified records and the groups\<close>

text \<open>
  C2. The rows with quality 4 (class None) are dropped before the grouping: the frame
  \<open>df_classed\<close> has none of them, every value of every bucket is the cell of an input
  record whose quality is not 4, and the buckets are the same as for the input without
  its records of quality 4.
\<close>

theorem unclassified_never_grouped:
  assumes "values_by_class (after_load cols recs) c = Inr bs"
  shows "(\<forall>(i, w) \<in> set (rows (df_classed (after_load cols recs))).
            quality w \<noteq> 4 \<and> quality_class w \<noteq> None)
       \<and> (\<exists>bad good very_good.
            class_series (after_load cols recs) ''Bad'' c = Inr bad
          \<and> class_series (after_load cols recs) ''Good'' c = Inr good
          \<and> class_series (after_load cols recs) ''Very Good'' c = Inr very_good
          \<and> bs = [series_values bad, series_values good, series_values very_good]
          \<and> (\<forall>(i, v) \<in> set (bad @ good @ very_good).
                 i < length recs \<and> quality (recs ! i) \<noteq> 4
               \<and> v = cell_of c (with_class (recs ! i))))
       \<and> values_by_class (after_load cols (filter (\<lambda>r. quality r \<noteq> 4) recs)) c = Inr bs"
proof (intro conjI)
  show "\<forall>(i, w) \<in> set (rows (df_classed (after_load cols recs))).
            quality w \<noteq> 4 \<and> quality_class w \<noteq> None"
    by (auto simp: rows_classify_read_csv(2) with_class_def dest: class_Some_not4)
  obtain bad good very_good where
    b: "class_series (after_load cols recs) ''Bad'' c = Inr bad"
    and g: "class_series (after_load cols recs) ''Good'' c = Inr good"
    and v: "class_series (after_load cols recs) ''Very Good'' c = Inr very_good"
    and bs: "bs = [series_values bad, series_values good, series_values very_good]"
    using values_by_class_Inr [OF assms] by blast
  have "\<forall>(i, v) \<in> set (bad @ good @ very_good).
          i < length recs \<and> quality (recs ! i) \<noteq> 4 \<and> v = cell_of c (with_class (recs ! i))"
    using class_series_labels(2) [OF b] class_series_labels(2) [OF g]
      class_series_labels(2) [OF v]
    by (auto dest: class_Some_not4)
  with b g v bs show "\<exists>bad good very_good.
            class_series (after_load cols recs) ''Bad'' c = Inr bad
          \<and> class_series (after_load cols recs) ''Good'' c = Inr good
          \<and> class_series (after_load cols recs) ''Very Good'' c = Inr very_good
          \<and> bs = [series_values bad, series_values good, series_values very_good]
          \<and> (\<forall>(i, v) \<in> set (bad @ good @ very_good).
                 i < length recs \<and> quality (recs ! i) \<noteq> 4
               \<and> v = cell_of c (with_class (recs ! i)))"
    by blast
  show "values_by_class (after_load cols (filter (\<lambda>r. quality r \<noteq> 4) recs)) c = Inr bs"
    using assms by (auto simp: values_by_class_read_csv bucket_without_4 split: if_splits)
qed

theorem unclassified_never_grouped_witness:
  "values_by_class (after_load [''alcohol'', ''pH''] scenario) ''alcohol''
     = Inr [[FloatCell 9.4, FloatCell 11.2], [FloatCell 10.5, FloatCell 9.9], [FloatCell 12.8]]
   \<and> map (\<lambda>(i, w). (i, quality w, quality_class w))
         (rows (df_classed (after_load [''alcohol'', ''pH''] scenario)))
     = [(0, 3, Some ''Bad''), (2, 5, Some ''Good''), (3, 8, Some ''Very Good''),
        (4, 6, Some ''Good''), (5, 2, Some ''Bad'')]
   \<and> values_by_class
         (after_load [''alcohol'', ''pH''] (filter (\<lambda>r. quality r \<noteq> 4) scenario)) ''alcohol''
     = Inr [[FloatCell 9.4, FloatCell 11.2], [FloatCell 10.5, FloatCell 9.9], [FloatCell 12.8]]"
proof -
  have "map (\<lambda>(i, w). (i, quality w, quality_class w))
         (rows (df_classed (after_load [''alcohol'', ''pH''] scenario)))
     = [(0, 3, Some ''Bad''), (2, 5, Some ''Good''), (3, 8, Some ''Very Good''),
        (4, 6, Some ''Good''), (5, 2, Some ''Bad'')]"
    by (simp add: scenario_def script_defs)
  then show ?thesis
    using unclassified_never_grouped [OF scenario_values] scenario_values
    by simp
qed

subsection \<open>How many values are grouped\<close>

text \<open>
  C3. The lengths of the buckets that \<open>values_by_class\<close> returns add up to the number of
  input records whose quality is not 4, that is, whose class is not None.
\<close>

theorem bucket_lengths_sum:
  assumes "values_by_class (after_load cols recs) c = Inr bs"
  shows "sum_list (map length bs) = length (filter (\<lambda>r. quality r \<noteq> 4) recs)
       \<and> sum_list (map length bs)
           = length (filter (\<lambda>r. map_quality_to_class (quality r) \<noteq> None) recs)"
proof -
  have bs: "bs = [bucket c ''Bad'' recs, bucket c ''Good'' recs, bucket c ''Very Good'' recs]"
    using assms by (auto simp: values_by_class_read_csv split: if_splits)
  have "sum_list (map length bs) = length (filter (\<lambda>r. quality r \<noteq> 4) recs)"
    unfolding bs using class_counts [of recs] by (simp add: length_bucket)
  then show ?thesis
    by (simp only: class_not_None)
qed

theorem bucket_lengths_sum_witness:
  "values_by_class (after_load [''alcohol'', ''pH''] scenario) ''alcohol''
     = Inr [[FloatCell 9.4, FloatCell 11.2], [FloatCell 10.5, FloatCell 9.9], [FloatCell 12.8]]
   \<and> sum_list (map length
         [[FloatCell 9.4, FloatCell 11.2], [FloatCell 10.5, FloatCell 9.9], [FloatCell (12.8::real)]]) = 5
   \<and> length (filter (\<lambda>r. quality r \<noteq> 4) scenario) = 5"
  using bucket_lengths_sum [OF scenario_values] scenario_values
  by simp

subsection \<open>The order within a bucket\<close>

text \<open>
  C4. Within each bucket the values stand in the order of the input: each bucket lists the
  cells of the input records at a strictly increasing sequence of positions (the index
  labels of its rows).
\<close>

theorem bucket_order_stable:
  assumes "values_by_class (after_load cols recs) c = Inr bs"
  shows "\<exists>bad good very_good.
            class_series (after_load cols recs) ''Bad'' c = Inr bad
          \<and> class_series (after_load cols recs) ''Good'' c = Inr good
          \<and> class_series (after_load cols recs) ''Very Good'' c = Inr very_good
          \<and> bs = [series_values bad, series_values good, series_values very_good]
          \<and> (\<forall>s \<in> {bad, good, very_good}.
                 sorted_wrt (<) (map fst s) \<and> set (map fst s) \<subseteq> {..<length recs}
               \<and> series_values s = map (\<lambda>i. cell_of c (with_class (recs ! i))) (map fst s))"
proof -
  obtain bad good very_good where
    b: "class_series (after_load cols recs) ''Bad'' c = Inr bad"
    and g: "class_series (after_load cols recs) ''Good'' c = Inr good"
    and v: "class_series (after_load cols recs) ''Very Good'' c = Inr very_good"
    and bs: "bs = [series_values bad, series_values good, series_values very_good]"
    using values_by_class_Inr [OF assms] by blast
  have ordered: "sorted_wrt (<) (map fst s) \<and> set (map fst s) \<subseteq> {..<length recs}
      \<and> series_values s = map (\<lambda>i. cell_of c (with_class (recs ! i))) (map fst s)"
    if "class_series (after_load cols recs) l c = Inr s" for l s
    using class_series_labels [OF that]
    by (auto simp: series_values_def)
  show ?thesis
    using b g v bs ordered [OF b] ordered [OF g] ordered [OF v] by blast
qed

theorem bucket_order_stable_witness:
  "values_by_class (after_load [''alcohol'', ''pH''] scenario) ''alcohol''
     = Inr [[FloatCell 9.4, FloatCell 11.2], [FloatCell 10.5, FloatCell 9.9], [FloatCell 12.8]]
   \<and> class_series (after_load [''alcohol'', ''pH''] scenario) ''Good'' ''alcohol''
     = Inr [(2, FloatCell 10.5), (4, FloatCell 9.9)]
   \<and> sorted_wrt (<) (map fst [(2::nat, FloatCell (10.5::real)), (4, FloatCell 9.9)])
   \<and> map (\<lambda>i. cell_of ''alcohol'' (with_class (scenario ! i))) [2, 4]
     = [FloatCell 10.5, FloatCell 9.9]"
proof -
  have "map (\<lambda>i. cell_of ''alcohol'' (with_class (scenario ! i))) [2, 4]
     = [FloatCell 10.5, FloatCell 9.9]"
    by (simp add: scenario_def cell_of_def with_class_def)
  then show ?thesis
    using bucket_order_stable [OF scenario_values] scenario_values scenario_series(2)
    by simp
qed

subsection \<open>No failure on any quality value\<close>

text \<open>
  C5. The classifier has a result for every integer, with no error branch: a quality
  below 0 is Bad and one above 10 is Very Good, by the same rule. Whether
  \<open>values_by_class\<close> returns does not depend on the quality values of the records: for
  every column of the frame it returns the three buckets, whatever the qualities are (its
  only error is the KeyError for a column that the frame does not have).
\<close>

theorem quality_never_raises:
  "map_quality_to_class q \<in> {Some ''Bad'', Some ''Good'', Some ''Very Good'', None}
   \<and> (q < 0 \<longrightarrow> map_quality_to_class q = Some ''Bad'')
   \<and> (10 < q \<longrightarrow> map_quality_to_class q = Some ''Very Good'')
   \<and> ((\<exists>bs. values_by_class (after_load cols recs) c = Inr bs)
        \<longleftrightarrow> c \<in> set (''quality_class'' # ''quality'' # cols))
   \<and> (c \<in> set (''quality_class'' # ''quality'' # cols) \<longrightarrow>
        values_by_class (after_load cols recs) c
          = Inr [bucket c ''Bad'' recs, bucket c ''Good'' recs, bucket c ''Very Good'' recs])"
  by (auto simp: map_quality_to_class_def values_by_class_read_csv)

theorem quality_never_raises_witness:
  "(- 2 :: int) < 0 \<and> map_quality_to_class (- 2) = Some ''Bad''
   \<and> (10 :: int) < 11 \<and> map_quality_to_class 11 = Some ''Very Good''
   \<and> ''alcohol'' \<in> set [''quality_class'', ''quality'', ''alcohol'']
   \<and> values_by_class (after_load [''alcohol''] extremes) ''alcohol''
     = Inr [[FloatCell 9.4], [], [FloatCell 9.8]]
   \<and> values_by_class (after_load [''alcohol'', ''pH''] scenario) ''sulphates''
     = Inl (KeyError ''sulphates'')"
  using quality_never_raises [of "- 2" "[''alcohol'']" extremes "''alcohol''"]
    quality_never_raises [of 11 "[''alcohol'']" extremes "''alcohol''"]
    extremes_values scenario_missing
  by simp

subsection \<open>The class is a function of the quality alone\<close>

text \<open>
  C6. Two records with the same quality get the same class, in whatever datasets and at
  whatever positions they stand and whatever their other attributes and the other columns
  are: the class of a row is the classifier's result on the row's quality.
\<close>

theorem class_depends_on_quality_only:
  assumes "i < length recs" and "j < length recs'"
    and "quality (recs ! i) = quality (recs' ! j)"
  shows "quality_class (snd (rows (df (after_load cols recs)) ! i))
         = quality_class (snd (rows (df (after_load cols' recs')) ! j))
       \<and> quality_class (snd (rows (df (after_load cols recs)) ! i))
         = map_quality_to_class (quality (recs ! i))"
  using assms by (simp add: class_in_df with_class_def)

theorem class_depends_on_quality_only_witness:
  "(2::nat) < length scenario \<and> (0::nat) < length [\<lparr>quality = 5, attr = (\<lambda>c. 0::real)\<rparr>]
   \<and> quality (scenario ! 2) = quality ([\<lparr>quality = 5, attr = (\<lambda>c. 0::real)\<rparr>] ! 0)
   \<and> quality_class (snd (rows (df (after_load [''alcohol'', ''pH''] scenario)) ! 2)) = Some ''Good''
   \<and> quality_class (snd (rows (df (after_load [''density'']
         [\<lparr>quality = 5, attr = (\<lambda>c. 0::real)\<rparr>])) ! 0)) = Some ''Good''"
proof -
  have a: "(2::nat) < length scenario"
    by (simp add: scenario_def)
  have b: "(0::nat) < length [\<lparr>quality = 5, attr = (\<lambda>c. 0::real)\<rparr>]"
    by simp
  have c: "quality (scenario ! 2) = quality ([\<lparr>quality = 5, attr = (\<lambda>c. 0::real)\<rparr>] ! 0)"
    by (simp add: scenario_def)
  have d: "quality_class (snd (rows (df (after_load [''alcohol'', ''pH''] scenario)) ! 2)) = Some ''Good''"
    by (simp add: scenario_def script_defs Let_def)
  show ?thesis
    using class_depends_on_quality_only [OF a b c, of "[''alcohol'', ''pH'']" "[''density'']"] a b c d
    by simp
qed

subsection \<open>Classifying twice\<close>

text \<open>
  C7. Assigning the column \<open>quality_class\<close> a second time changes nothing: the frame, and
  so the class of every row, is the same after two assignments as after one, and so are
  the two variables.
\<close>

theorem classification_idempotent:
  "add_quality_class (add_quality_class d) = add_quality_class d
   \<and> map (\<lambda>(i, w). (i, quality_class w)) (rows (add_quality_class (add_quality_class d)))
     = map (\<lambda>(i, w). (i, quality_class w)) (rows (add_quality_class d))
   \<and> classify_frame (df (classify_frame d)) = classify_frame d"
proof -
  have q: "quality_series (add_quality_class d) = quality_series d"
    by (simp add: quality_series_def add_quality_class_def setitem_quality_class_def
        case_prod_unfold o_def)
  have "add_quality_class (add_quality_class d) = add_quality_class d"
    unfolding add_quality_class_def [of "add_quality_class d"] q
    by (simp add: add_quality_class_def setitem_quality_class_def case_prod_unfold o_def)
  then show ?thesis
    by (simp add: classify_frame_def Let_def)
qed

subsection \<open>Empty classes\<close>

text \<open>
  The empty dataset never reaches the grouping: with every column of the wine file
  present, the histogram's \<^verbatim>\<open>int(df['quality'].min())\<close> raises a ValueError, so
  the script stops before \<open>df_classed\<close> and \<open>values_by_class\<close> exist.
\<close>

theorem empty_dataset_raises:
  "script_until_grouping wine_columns ([] :: real wine list) = Inl ValueError"
  by (simp add: until_grouping_defs read_csv_def)

text \<open>
  C8, amended. On every dataset with which the script reaches the grouping (such a dataset
  is not empty), \<open>values_by_class\<close> returns three buckets for a column of the frame, and
  the bucket of a class that no record has is empty; no error is raised. In particular a
  dataset whose records all have quality 4 gives three empty buckets.
\<close>

theorem empty_class_empty_bucket:
  assumes "script_until_grouping cols recs = Inr g"
    and "c \<in> set (''quality_class'' # ''quality'' # cols)"
  shows "recs \<noteq> []
       \<and> (\<exists>bad good very_good.
            values_by_class g c = Inr [bad, good, very_good]
          \<and> ((\<forall>r \<in> set recs. \<not> quality r < 4) \<longrightarrow> bad = [])
          \<and> ((\<forall>r \<in> set recs. \<not> (4 < quality r \<and> quality r \<le> 7)) \<longrightarrow> good = [])
          \<and> ((\<forall>r \<in> set recs. \<not> 7 < quality r) \<longrightarrow> very_good = [])
          \<and> ((\<forall>r \<in> set recs. quality r = 4)
                \<longrightarrow> bad = [] \<and> good = [] \<and> very_good = []))"
proof -
  have g: "g = after_load cols recs" and ne: "recs \<noteq> []"
    using script_until_grouping_Inr [OF assms(1)] by simp_all
  have v: "values_by_class g c
            = Inr [bucket c ''Bad'' recs, bucket c ''Good'' recs, bucket c ''Very Good'' recs]"
    unfolding g using assms(2) by (auto simp: values_by_class_read_csv)
  have b: "(\<forall>r \<in> set recs. \<not> quality r < 4) \<longrightarrow> bucket c ''Bad'' recs = []"
    by (simp add: bucket_thresholds(1) filter_empty_conv)
  have m: "(\<forall>r \<in> set recs. \<not> (4 < quality r \<and> quality r \<le> 7)) \<longrightarrow> bucket c ''Good'' recs = []"
    by (simp add: bucket_thresholds(2) filter_empty_conv)
  have t: "(\<forall>r \<in> set recs. \<not> 7 < quality r) \<longrightarrow> bucket c ''Very Good'' recs = []"
    by (simp add: bucket_thresholds(3) filter_empty_conv)
  have a: "(\<forall>r \<in> set recs. quality r = 4)
     \<longrightarrow> bucket c ''Bad'' recs = [] \<and> bucket c ''Good'' recs = [] \<and> bucket c ''Very Good'' recs = []"
    by (simp add: bucket_thresholds filter_empty_conv)
  show ?thesis
    using ne v b m t a by blast
qed

theorem empty_class_empty_bucket_witness:
  "script_until_grouping wine_columns extremes = Inr (after_load wine_columns extremes)
   \<and> script_until_grouping wine_columns only_fours = Inr (after_load wine_columns only_fours)
   \<and> ''alcohol'' \<in> set (''quality_class'' # ''quality'' # wine_columns)
   \<and> filter (\<lambda>r. 4 < quality r \<and> quality r \<le> 7) extremes = []
   \<and> values_by_class (after_load wine_columns extremes) ''alcohol''
     = Inr [[FloatCell 9.4], [], [FloatCell 9.8]]
   \<and> filter (\<lambda>r. quality r \<noteq> 4) only_fours = []
   \<and> values_by_class (after_load wine_columns only_fours) ''alcohol'' = Inr [[], [], []]"
proof -
  have c: "''alcohol'' \<in> set (''quality_class'' # ''quality'' # wine_columns)"
    by (simp add: wine_columns_def)
  have n: "filter (\<lambda>r. 4 < quality r \<and> quality r \<le> 7) extremes = []"
    by (simp add: extremes_def)
  have f: "filter (\<lambda>r. quality r \<noteq> 4) only_fours = []"
    by (simp add: only_fours_def)
  show ?thesis
    using empty_class_empty_bucket [OF extremes_reach_grouping c]
      empty_class_empty_bucket [OF only_fours_reach_grouping c]
      extremes_reach_grouping only_fours_reach_grouping c n f
      extremes_wine_values only_fours_values
    by simp
qed

subsection \<open>What classification leaves as it was\<close>

text \<open>
  C9. Setting the column \<open>quality_class\<close> leaves the quality and the attributes of every
  row, the index labels, the number and the order of the rows and the other column names
  as they were; and building \<open>df_classed\<close> leaves \<open>df\<close> as the assignment made it.
\<close>

theorem classification_frame:
  fixes d :: "'f wine dataframe" and recs :: "'f wine list"
  shows "map (\<lambda>(i, w). (i, \<lparr>quality = quality w, attr = attr w\<rparr>)) (rows (add_quality_class d))
           = rows d
       \<and> attr_columns (add_quality_class d) = attr_columns d
       \<and> length (rows (add_quality_class d)) = length (rows d)
       \<and> df (classify_frame d) = add_quality_class d
       \<and> map (\<lambda>(i, w). \<lparr>quality = quality w, attr = attr w\<rparr>)
            (rows (df (after_load cols recs))) = recs"
proof -
  have w: "\<lparr>quality = quality r, attr = attr r\<rparr> = r" for r :: "'f wine"
    by (cases r) simp
  have "map (\<lambda>(i, w). (i, \<lparr>quality = quality w, attr = attr w\<rparr>)) (rows (add_quality_class d))
          = map (\<lambda>p. p) (rows d)"
    by (simp add: add_quality_class_def setitem_quality_class_def case_prod_unfold o_def w)
  moreover have "map (\<lambda>(i, w). \<lparr>quality = quality w, attr = attr w\<rparr>)
            (rows (df (after_load cols recs))) = map (\<lambda>r. r) recs"
    by (simp add: rows_classify_read_csv(1) with_class_def case_prod_unfold o_def
        enumerate_eq_zip w)
  ultimately show ?thesis
    by (simp add: add_quality_class_def setitem_quality_class_def classify_frame_def Let_def)
qed

subsection \<open>Three buckets in a fixed order\<close>

text \<open>
  C10. \<open>values_by_class\<close> takes the column only and returns exactly three buckets, in the
  order Bad, Good, Very Good: the cells of the records with quality below 4, then of those
  with quality from 5 to 7, then of those with quality above 7. There is no bucket for the
  records without a class.
\<close>

theorem three_buckets_fixed_order:
  assumes "values_by_class (after_load cols recs) c = Inr bs"
  shows "length bs = 3
       \<and> bs ! 0 = map (\<lambda>r. cell_of c (with_class r)) (filter (\<lambda>r. quality r < 4) recs)
       \<and> bs ! 1 = map (\<lambda>r. cell_of c (with_class r))
                    (filter (\<lambda>r. 4 < quality r \<and> quality r \<le> 7) recs)
       \<and> bs ! 2 = map (\<lambda>r. cell_of c (with_class r)) (filter (\<lambda>r. 7 < quality r) recs)
       \<and> bs = map (\<lambda>label. bucket c label recs) [''Bad'', ''Good'', ''Very Good'']"
proof -
  have bs: "bs = [bucket c ''Bad'' recs, bucket c ''Good'' recs, bucket c ''Very Good'' recs]"
    using assms by (auto simp: values_by_class_read_csv split: if_splits)
  show ?thesis
    unfolding bs by (simp add: bucket_thresholds)
qed

theorem three_buckets_fixed_order_witness:
  "values_by_class (after_load [''alcohol'', ''pH''] scenario) ''alcohol''
     = Inr [[FloatCell 9.4, FloatCell 11.2], [FloatCell 10.5, FloatCell 9.9], [FloatCell 12.8]]
   \<and> map (\<lambda>r. cell_of ''alcohol'' (with_class r)) (filter (\<lambda>r. quality r < 4) scenario)
     = [FloatCell 9.4, FloatCell 11.2]
   \<and> map (\<lambda>r. cell_of ''alcohol'' (with_class r))
       (filter (\<lambda>r. 4 < quality r \<and> quality r \<le> 7) scenario)
     = [FloatCell 10.5, FloatCell 9.9]
   \<and> map (\<lambda>r. cell_of ''alcohol'' (with_class r)) (filter (\<lambda>r. 7 < quality r) scenario)
     = [FloatCell 12.8]"
  using three_buckets_fixed_order [OF scenario_values] scenario_values
  by simp

end
